theory Spec2Isabelle
  imports Complex_Main "HOL-Library.AList"
begin

section \<open>Labeled arrays\<close>

text \<open>
  The values the library touches, as far as \<^verbatim>\<open>schema.py\<close> inspects them.
  A coordinate label is a Python scalar; \<^verbatim>\<open>isinstance(x, int)\<close> holds for ints and
  for bools (bool is a subclass of int).
\<close>

datatype label = LInt int | LBool bool | LFloat real | LStr string

fun isinstance_int :: "label \<Rightarrow> bool" where
  "isinstance_int (LInt _) = True"
| "isinstance_int (LBool _) = True"
| "isinstance_int (LFloat _) = False"
| "isinstance_int (LStr _) = False"

text \<open>Python's \<^verbatim>\<open>==\<close> on scalars: numbers compare by value across int, bool and float.\<close>

fun num_of :: "label \<Rightarrow> real option" where
  "num_of (LInt i) = Some (of_int i)"
| "num_of (LBool b) = Some (if b then 1 else 0)"
| "num_of (LFloat r) = Some r"
| "num_of (LStr _) = None"

definition label_eq :: "label \<Rightarrow> label \<Rightarrow> bool" where
  "label_eq a b =
     (case (num_of a, num_of b) of
        (Some x, Some y) \<Rightarrow> x = y
      | (None, None) \<Rightarrow> a = b
      | _ \<Rightarrow> False)"

text \<open>
  The \<^verbatim>\<open>.values\<close> of one coordinate variable: a 0-d array (a scalar coordinate, as
  left behind by \<^verbatim>\<open>squeeze\<close>) or a 1-d array of labels.
\<close>

datatype ndarray = Scalar0 label | Array1 "label list"

text \<open>
  An element of the numeric buffer. Comparisons of floating-point numbers are exact,
  so an element is NaN, an infinity or a real number; no arithmetic is done on them.
  (numpy converts an int64 to float64 before it compares it with a float, which rounds
  integers beyond \<open>2^53\<close>; the comparisons here and in \<open>label_eq\<close> are on the exact
  values, and no property below depends on the outcome of a comparison of such numbers.)
\<close>

datatype fval = NaN | NegInf | Fin real | PosInf

fun fless :: "fval \<Rightarrow> fval \<Rightarrow> bool" where
  "fless NaN _ = False"
| "fless _ NaN = False"
| "fless NegInf NegInf = False"
| "fless NegInf _ = True"
| "fless (Fin x) (Fin y) = (x < y)"
| "fless (Fin _) PosInf = True"
| "fless (Fin _) NegInf = False"
| "fless PosInf _ = False"

fun isnull :: "fval \<Rightarrow> bool" where
  "isnull NaN = True"
| "isnull _ = False"

text \<open>
  \<^verbatim>\<open>xr.DataArray\<close>: \<^verbatim>\<open>.dims\<close>, the items of \<^verbatim>\<open>.coords\<close> in their order, and the
  buffer \<^verbatim>\<open>.values\<close>, flattened.
\<close>

record DataArray =
  dims :: "string list"
  coords :: "(string \<times> ndarray) list"
  vals :: "fval list"

type_synonym coord_dict = "(string \<times> label list) list"

section \<open>Messages, exceptions and effects\<close>

text \<open>
  A message is an f-string: literal text and interpolated values, each tagged with the
  Python type it is printed from.
\<close>

datatype fragment =
    Lit string
  | FStr string
  | FStrList "string list"
  | FStrTuple "string list"
  | FLabels "label list"
  | FCoordDict coord_dict
  | FKeys "string list"
  | FNum fval

type_synonym message = "fragment list"

datatype exn =
    Exception message
  | TypeError string
  | KeyError string
  | AttributeError string

text \<open>
  A computation that may log warnings and then either raises or returns: the warnings
  emitted so far, in order, and the outcome.
\<close>

type_synonym 'a eff = "message list \<times> (exn + 'a)"

definition ret :: "'a \<Rightarrow> 'a eff" where
  "ret x = ([], Inr x)"

definition raise_exn :: "exn \<Rightarrow> 'a eff" where
  "raise_exn e = ([], Inl e)"

definition warning :: "message \<Rightarrow> unit eff" where
  "warning m = ([m], Inr ())"

definition lift :: "exn + 'a \<Rightarrow> 'a eff" where
  "lift r = ([], r)"

definition and_then :: "'a eff \<Rightarrow> ('a \<Rightarrow> 'b eff) \<Rightarrow> 'b eff" where
  "and_then m f =
     (case m of
        (l, Inl e) \<Rightarrow> (l, Inl e)
      | (l, Inr x) \<Rightarrow> (case f x of (l', r) \<Rightarrow> (l @ l', r)))"

definition then_do :: "unit eff \<Rightarrow> 'b eff \<Rightarrow> 'b eff" where
  "then_do m k = and_then m (\<lambda>_. k)"

section \<open>schema.py\<close>

definition EXACT_MATCH_TYPE :: string where
  "EXACT_MATCH_TYPE = ''exact''"

definition MINIMUM_MATCH_TYPE :: string where
  "MINIMUM_MATCH_TYPE = ''minimum''"

definition VALID_MATCH_TYPES :: "string list" where
  "VALID_MATCH_TYPES = [EXACT_MATCH_TYPE, MINIMUM_MATCH_TYPE]"

subsection \<open>coords_as_dict\<close>

text \<open>
  The loop of \<^verbatim>\<open>coords_as_dict\<close>, with \<^verbatim>\<open>coord_dict\<close> as accumulator.
  \<^verbatim>\<open>value.values.tolist()\<close> is a Python scalar exactly for a 0-d array; when that
  scalar is not an int, \<^verbatim>\<open>list(value.values)\<close> iterates over a 0-d array, which numpy
  refuses with a TypeError.
\<close>

fun coords_as_dict_loop :: "(string \<times> ndarray) list \<Rightarrow> coord_dict \<Rightarrow> exn + coord_dict" where
  "coords_as_dict_loop [] coord_dict = Inr coord_dict"
| "coords_as_dict_loop ((item, Scalar0 l) # rest) coord_dict =
     (if isinstance_int l
      then coords_as_dict_loop rest (AList.update item [l] coord_dict)
      else Inl (TypeError ''iteration over a 0-d array''))"
| "coords_as_dict_loop ((item, Array1 ls) # rest) coord_dict =
     coords_as_dict_loop rest (AList.update item ls coord_dict)"

definition coords_as_dict :: "DataArray \<Rightarrow> exn + coord_dict" where
  "coords_as_dict data = coords_as_dict_loop (coords data) []"

subsection \<open>Schema\<close>

datatype pyarg =
    ArrayArg DataArray
  | IntArg int
  | StrArg string
  | ListArg "label list"
  | NoneArg

type_synonym kwargs = "string \<rightharpoonup> pyarg"

text \<open>An expectation is a concrete collection or a callable taking the keyword arguments.\<close>

datatype 'a expectation = Concrete 'a | Callback "kwargs \<Rightarrow> exn + 'a"

record Schema =
  expected_dims :: "string list expectation"
  expected_coords :: "coord_dict expectation"
  dim_match_type :: string
  coord_match_type :: string
  min_value :: fval
  max_value :: fval
  nan_values_allowed :: bool
  raise_errors :: bool

definition Schema_init ::
  "string list expectation \<Rightarrow> string \<Rightarrow> coord_dict expectation \<Rightarrow> string \<Rightarrow>
   fval \<Rightarrow> fval \<Rightarrow> bool \<Rightarrow> bool \<Rightarrow> exn + Schema" where
  "Schema_init expected_dims' dim_match_type' expected_coords' coord_match_type'
     minimum_value maximum_value nan_values_allowed' raise_errors' =
     (if \<not> List.member VALID_MATCH_TYPES dim_match_type'
      then Inl (Exception
        [Lit ''Invalid match type: '', FStr dim_match_type',
         Lit ''. Please supply one of the following: '', FStrList VALID_MATCH_TYPES,
         Lit ''.''])
      else Inr \<lparr> expected_dims = expected_dims',
                 expected_coords = expected_coords',
                 dim_match_type = dim_match_type',
                 coord_match_type = coord_match_type',
                 min_value = minimum_value,
                 max_value = maximum_value,
                 nan_values_allowed = nan_values_allowed',
                 raise_errors = raise_errors' \<rparr>)"

definition resolve_expected_dims :: "Schema \<Rightarrow> kwargs \<Rightarrow> exn + Schema" where
  "resolve_expected_dims self kw =
     (case expected_dims self of
        Callback f \<Rightarrow>
          (case f kw of
             Inl e \<Rightarrow> Inl e
           | Inr v \<Rightarrow> Inr (self\<lparr>expected_dims := Concrete v\<rparr>))
      | Concrete _ \<Rightarrow> Inr self)"

definition resolve_expected_coords :: "Schema \<Rightarrow> kwargs \<Rightarrow> exn + Schema" where
  "resolve_expected_coords self kw =
     (case expected_coords self of
        Callback f \<Rightarrow>
          (case f kw of
             Inl e \<Rightarrow> Inl e
           | Inr v \<Rightarrow> Inr (self\<lparr>expected_coords := Concrete v\<rparr>))
      | Concrete _ \<Rightarrow> Inr self)"

definition log_or_raise :: "Schema \<Rightarrow> message \<Rightarrow> unit eff" where
  "log_or_raise self m =
     (if raise_errors self then raise_exn (Exception m) else warning m)"

text \<open>
  \<^verbatim>\<open>len(self._expected_dims)\<close>: a function object has no length, so an expectation that
  is still a callback makes \<^verbatim>\<open>len\<close> raise a TypeError.
\<close>

fun sized :: "'a expectation \<Rightarrow> exn + 'a" where
  "sized (Concrete x) = Inr x"
| "sized (Callback _) = Inl (TypeError ''object of type function has no len()'')"

definition match_dims_exactly :: "Schema \<Rightarrow> DataArray \<Rightarrow> unit eff" where
  "match_dims_exactly self data =
     and_then (lift (sized (expected_dims self))) (\<lambda>eds.
       if length eds = 0 then ret ()
       else if dims data \<noteq> eds
       then log_or_raise self
         [Lit ''Data dims do not exactly match the expected ones. '',
          Lit ''Expected: '', FStrList eds, Lit ''. Found: '', FStrTuple (dims data),
          Lit ''.'']
       else ret ())"

definition match_minimum_dims :: "Schema \<Rightarrow> DataArray \<Rightarrow> unit eff" where
  "match_minimum_dims self data =
     and_then (lift (sized (expected_dims self))) (\<lambda>eds.
       if length eds = 0 then ret ()
       else
         (let missing_dims = filter (\<lambda>dim. \<not> List.member eds dim) eds
          in if missing_dims \<noteq> []
             then log_or_raise self
               [Lit ''Data dims do not contain the minimum expected ones. '',
                Lit ''Expected: '', FStrList eds, Lit ''. Found: '', FStrTuple (dims data),
                Lit ''. '', Lit ''Missing: '', FStrList missing_dims, Lit ''.'']
             else ret ()))"

text \<open>
  \<^verbatim>\<open>a.items() != b.items()\<close> on two dicts: the views are equal when they have the same
  size and every item of the left one is in the right one, that is, the key is there and
  the stored list equals the given one element by element.
\<close>

definition items_eq :: "coord_dict \<Rightarrow> coord_dict \<Rightarrow> bool" where
  "items_eq a b =
     (length a = length b \<and>
      list_all (\<lambda>(k, v).
        case map_of b k of
          None \<Rightarrow> False
        | Some found \<Rightarrow> list_all2 label_eq found v) a)"

definition match_coords_exactly :: "Schema \<Rightarrow> DataArray \<Rightarrow> unit eff" where
  "match_coords_exactly self data =
     and_then (lift (sized (expected_coords self))) (\<lambda>ecs.
       if length ecs = 0 then ret ()
       else and_then (lift (coords_as_dict data)) (\<lambda>cd.
         if \<not> items_eq ecs cd
         then log_or_raise self
           [Lit ''Data coords to not exactly match the expected ones. '',
            Lit ''Expected: '', FCoordDict ecs, Lit ''. Found: '', FCoordDict cd, Lit ''.'']
         else ret ()))"

text \<open>\<^verbatim>\<open>set(a).issuperset(set(b))\<close>\<close>

definition issuperset :: "label list \<Rightarrow> label list \<Rightarrow> bool" where
  "issuperset a b = list_all (\<lambda>e. list_ex (\<lambda>x. label_eq x e) a) b"

text \<open>\<^verbatim>\<open>d[k]\<close> on a dict raises KeyError when the key is absent.\<close>

definition getitem :: "(string \<times> 'v) list \<Rightarrow> string \<Rightarrow> exn + 'v" where
  "getitem d k = (case map_of d k of None \<Rightarrow> Inl (KeyError k) | Some v \<Rightarrow> Inr v)"

text \<open>
  The \<^verbatim>\<open>for\<close> loop of \<^verbatim>\<open>_match_minimum_coords\<close>, with the two lists it appends to.
  The second \<^verbatim>\<open>if\<close> is not an \<^verbatim>\<open>else\<close> branch: it reads \<^verbatim>\<open>coords[coord_name]\<close> also
  for a name that was just found missing.
\<close>

fun minimum_coords_loop ::
  "coord_dict \<Rightarrow> coord_dict \<Rightarrow> string list \<Rightarrow> string list \<Rightarrow> exn + (string list \<times> string list)" where
  "minimum_coords_loop cd [] missing_coords mismatching = Inr (missing_coords, mismatching)"
| "minimum_coords_loop cd ((coord_name, expected_coord_values) # rest) missing_coords mismatching =
     (let missing_coords' =
            (if \<not> List.member (map fst cd) coord_name
             then missing_coords @ [coord_name] else missing_coords)
      in case getitem cd coord_name of
           Inl e \<Rightarrow> Inl e
         | Inr found \<Rightarrow>
             minimum_coords_loop cd rest missing_coords'
               (if \<not> issuperset found expected_coord_values
                then mismatching @ [coord_name] else mismatching))"

text \<open>\<^verbatim>\<open>", ".join(parts)\<close>, each part being an f-string itself.\<close>

fun join :: "message list \<Rightarrow> message" where
  "join [] = []"
| "join [p] = p"
| "join (p # ps) = p @ [Lit '', ''] @ join ps"

text \<open>\<^verbatim>\<open>[f"{coord}: {self._expected_coords[coord]}" for coord in mismatching]\<close>\<close>

fun expected_parts :: "coord_dict \<Rightarrow> string list \<Rightarrow> exn + message list" where
  "expected_parts ecs [] = Inr []"
| "expected_parts ecs (coord # rest) =
     (case getitem ecs coord of
        Inl e \<Rightarrow> Inl e
      | Inr v \<Rightarrow>
          (case expected_parts ecs rest of
             Inl e \<Rightarrow> Inl e
           | Inr ps \<Rightarrow> Inr ([FStr coord, Lit '': '', FLabels v] # ps)))"

text \<open>\<^verbatim>\<open>[f"{coord}: {vals}" for coord, vals in coords.items() if coord in mismatching]\<close>\<close>

definition found_parts :: "coord_dict \<Rightarrow> string list \<Rightarrow> message list" where
  "found_parts cd mismatching =
     map (\<lambda>(coord, vs). [FStr coord, Lit '': '', FLabels vs])
       (filter (\<lambda>(coord, vs). List.member mismatching coord) cd)"

definition match_minimum_coords :: "Schema \<Rightarrow> DataArray \<Rightarrow> unit eff" where
  "match_minimum_coords self data =
     and_then (lift (sized (expected_coords self))) (\<lambda>ecs.
       if length ecs = 0 then ret ()
       else and_then (lift (coords_as_dict data)) (\<lambda>cd.
         and_then (lift (minimum_coords_loop cd ecs [] [])) (\<lambda>(missing_coords, mismatching).
           then_do
             (if missing_coords \<noteq> []
              then log_or_raise self
                [Lit ''Data is missing coordinate(s): '', FStrList missing_coords, Lit ''. '',
                 Lit ''Expected: '', FKeys (map fst ecs), Lit ''. Found: '', FKeys (map fst cd)]
              else ret ())
             (if mismatching \<noteq> []
              then and_then (lift (expected_parts ecs mismatching)) (\<lambda>eps.
                log_or_raise self
                  ([Lit ''Data has mismatching coordinate values for coords: '',
                    FStrList mismatching, Lit ''. Expected: ''] @ join eps @
                   [Lit ''. '', Lit ''Found: ''] @ join (found_parts cd mismatching) @
                   [Lit ''.'']))
              else ret ()))))"

definition ensure_values_above_minimum :: "Schema \<Rightarrow> DataArray \<Rightarrow> unit eff" where
  "ensure_values_above_minimum self data =
     (if list_ex (\<lambda>v. fless v (min_value self)) (vals data)
      then log_or_raise self
        [Lit ''Identified values less than the set minimum: '', FNum (min_value self), Lit ''.'']
      else ret ())"

definition ensure_values_below_maximum :: "Schema \<Rightarrow> DataArray \<Rightarrow> unit eff" where
  "ensure_values_below_maximum self data =
     (if list_ex (\<lambda>v. fless (max_value self) v) (vals data)
      then log_or_raise self
        [Lit ''Identified values greater than the set maximum: '', FNum (max_value self), Lit ''.'']
      else ret ())"

definition ensure_no_nan_values :: "Schema \<Rightarrow> DataArray \<Rightarrow> unit eff" where
  "ensure_no_nan_values self data =
     (if list_ex isnull (vals data)
      then log_or_raise self [Lit ''Identified NaN values!'']
      else ret ())"

definition validate :: "Schema \<Rightarrow> DataArray \<Rightarrow> unit eff" where
  "validate self data =
     then_do
       (if dim_match_type self = EXACT_MATCH_TYPE
        then match_dims_exactly self data else match_minimum_dims self data)
    (then_do
       (if coord_match_type self = ''exact''
        then match_coords_exactly self data else match_minimum_coords self data)
    (then_do
       (if \<not> nan_values_allowed self then ensure_no_nan_values self data else ret ())
    (then_do
       (ensure_values_above_minimum self data)
       (ensure_values_below_maximum self data))))"

section \<open>validate.py\<close>

text \<open>
  The wrapped function may do anything to the rest of the program: it takes a world
  state \<open>'w\<close> and returns the new one with its outcome. The schema is shared and
  mutable, so the wrapper returns it as well, then the warnings logged and the outcome.
\<close>

type_synonym ('w, 'r) pyfunc = "'w \<Rightarrow> pyarg list \<Rightarrow> kwargs \<Rightarrow> 'w \<times> (exn + 'r)"

text \<open>
  \<^verbatim>\<open>schema.validate(x)\<close> on an argument that is not an array: the first read of
  \<^verbatim>\<open>x.dims\<close>, \<^verbatim>\<open>x.coords\<close>, \<^verbatim>\<open>x.isnull\<close> or \<^verbatim>\<open>x.values\<close> raises an AttributeError.
  The minimum dimension check never reads its argument; \<^verbatim>\<open>x.values\<close> is read before
  anything could be logged.
\<close>

fun validate_arg :: "Schema \<Rightarrow> pyarg \<Rightarrow> unit eff" where
  "validate_arg self (ArrayArg data) = validate self data"
| "validate_arg self _ =
     and_then (lift (sized (expected_dims self))) (\<lambda>eds.
       if dim_match_type self = EXACT_MATCH_TYPE \<and> length eds \<noteq> 0
       then raise_exn (AttributeError ''dims'')
       else and_then (lift (sized (expected_coords self))) (\<lambda>ecs.
         if length ecs \<noteq> 0 then raise_exn (AttributeError ''coords'')
         else if \<not> nan_values_allowed self then raise_exn (AttributeError ''isnull'')
         else raise_exn (AttributeError ''values'')))"

text \<open>
  \<^verbatim>\<open>schema.resolve_expected_dims(**kwargs)\<close>: the receiver is bound to the parameter
  \<^verbatim>\<open>self\<close>, so keyword arguments that hold the name \<^verbatim>\<open>self\<close> make the call raise a
  TypeError before the body of the method runs.
\<close>

definition method_call ::
  "(Schema \<Rightarrow> kwargs \<Rightarrow> exn + Schema) \<Rightarrow> Schema \<Rightarrow> kwargs \<Rightarrow> exn + Schema" where
  "method_call meth schema kw =
     (case kw ''self'' of
        Some _ \<Rightarrow> Inl (TypeError ''got multiple values for argument self'')
      | None \<Rightarrow> meth schema kw)"

definition check_input ::
  "string \<Rightarrow> ('w, 'r) pyfunc \<Rightarrow> Schema \<Rightarrow> 'w \<Rightarrow> pyarg list \<Rightarrow> kwargs \<Rightarrow>
   Schema \<times> 'w \<times> message list \<times> (exn + 'r)" where
  "check_input arg_name func schema w args kw =
     (case method_call resolve_expected_dims schema kw of
        Inl e \<Rightarrow> (schema, w, [], Inl e)
      | Inr s1 \<Rightarrow>
          (case method_call resolve_expected_coords s1 kw of
             Inl e \<Rightarrow> (s1, w, [], Inl e)
           | Inr s2 \<Rightarrow>
               (case kw arg_name of
                  None \<Rightarrow> (s2, w, [], Inl (KeyError arg_name))
                | Some a \<Rightarrow>
                    (case validate_arg s2 a of
                       (lg, Inl e) \<Rightarrow> (s2, w, lg, Inl e)
                     | (lg, Inr _) \<Rightarrow>
                         (case func w args kw of (w', r) \<Rightarrow> (s2, w', lg, r))))))"

section \<open>The checks of validate and the reporting policy\<close>

text \<open>The five checks of \<open>validate\<close>, in its order, each one run on its own.\<close>

definition checks :: "Schema \<Rightarrow> DataArray \<Rightarrow> unit eff list" where
  "checks self data =
     [if dim_match_type self = EXACT_MATCH_TYPE
      then match_dims_exactly self data else match_minimum_dims self data,
      if coord_match_type self = ''exact''
      then match_coords_exactly self data else match_minimum_coords self data,
      if \<not> nan_values_allowed self then ensure_no_nan_values self data else ret (),
      ensure_values_above_minimum self data,
      ensure_values_below_maximum self data]"

text \<open>What the five checks log, one after the other, when nothing is raised.\<close>

definition violations :: "Schema \<Rightarrow> DataArray \<Rightarrow> message list" where
  "violations self data = concat (map fst (checks (self\<lparr>raise_errors := False\<rparr>) data))"

text \<open>Reporting a list of violations through \<open>log_or_raise\<close>, one call after the other.\<close>

definition reports :: "bool \<Rightarrow> message list \<Rightarrow> unit eff" where
  "reports raising ms =
     (if raising then ([], case ms of [] \<Rightarrow> Inr () | m # _ \<Rightarrow> Inl (Exception m))
      else (ms, Inr ()))"

text \<open>
  A violation message produced by a computation: one that it logs, or the message of the
  \<^verbatim>\<open>Exception\<close> it raises.
\<close>

definition produced :: "unit eff \<Rightarrow> message \<Rightarrow> bool" where
  "produced r m = (List.member (fst r) m \<or> snd r = Inl (Exception m))"

section \<open>Example schemas and arrays\<close>

definition dims_schema :: Schema where
  "dims_schema =
     \<lparr> expected_dims = Concrete [''foo''], expected_coords = Concrete [],
       dim_match_type = ''minimum'', coord_match_type = ''exact'',
       min_value = NegInf, max_value = PosInf, nan_values_allowed = True,
       raise_errors = True \<rparr>"

definition coords_schema :: Schema where
  "coords_schema =
     \<lparr> expected_dims = Concrete [], expected_coords = Concrete [(''foo'', [LInt 1])],
       dim_match_type = ''exact'', coord_match_type = ''minimum'',
       min_value = NegInf, max_value = PosInf, nan_values_allowed = True,
       raise_errors = False \<rparr>"

definition bar_array :: DataArray where
  "bar_array = \<lparr> dims = [''bar''], coords = [(''bar'', Array1 [LInt 1])], vals = [Fin 1] \<rparr>"

definition scalar_array :: DataArray where
  "scalar_array =
     \<lparr> dims = [''x''],
       coords = [(''x'', Array1 [LInt 1, LInt 2]), (''t'', Scalar0 (LFloat (3 / 2)))],
       vals = [Fin 1, Fin 2] \<rparr>"

definition round_dims :: "kwargs \<Rightarrow> exn + string list" where
  "round_dims kw =
     (case kw ''gbd_round_id'' of
        Some (IntArg n) \<Rightarrow> if n = 6 then Inr [''foo''] else Inr [''bar'']
      | _ \<Rightarrow> Inl (Exception [Lit ''Could not get coordinates, gbd_round_id parameter not found.'']))"

definition round_coords :: "kwargs \<Rightarrow> exn + coord_dict" where
  "round_coords kw =
     (case kw ''gbd_round_id'' of
        Some (IntArg n) \<Rightarrow>
          if n = 6 then Inr [(''foo'', [LInt 1, LInt 2])] else Inr [(''bar'', [LInt 3, LInt 4])]
      | _ \<Rightarrow> Inl (Exception [Lit ''Could not get coordinates, gbd_round_id parameter not found.'']))"

definition dynamic_schema :: Schema where
  "dynamic_schema =
     \<lparr> expected_dims = Callback round_dims, expected_coords = Callback round_coords,
       dim_match_type = ''minimum'', coord_match_type = ''minimum'',
       min_value = Fin (- 100), max_value = Fin 100, nan_values_allowed = True,
       raise_errors = True \<rparr>"

definition resolved_schema :: Schema where
  "resolved_schema =
     \<lparr> expected_dims = Concrete [''foo''],
       expected_coords = Concrete [(''foo'', [LInt 1, LInt 2])],
       dim_match_type = ''minimum'', coord_match_type = ''minimum'',
       min_value = Fin (- 100), max_value = Fin 100, nan_values_allowed = True,
       raise_errors = True \<rparr>"

definition foo_array :: DataArray where
  "foo_array =
     \<lparr> dims = [''foo''], coords = [(''foo'', Array1 [LInt 1, LInt 2])], vals = [Fin 1, Fin 1] \<rparr>"

definition half_schema :: Schema where
  "half_schema =
     \<lparr> expected_dims = Concrete [''foo''], expected_coords = Callback round_coords,
       dim_match_type = ''minimum'', coord_match_type = ''minimum'',
       min_value = Fin (- 100), max_value = Fin 100, nan_values_allowed = True,
       raise_errors = True \<rparr>"

definition low_foo_array :: DataArray where
  "low_foo_array =
     \<lparr> dims = [''foo''], coords = [(''foo'', Array1 [LInt 1, LInt 2])],
       vals = [Fin (- 101), Fin 1] \<rparr>"

definition counting_func :: "(nat, nat) pyfunc" where
  "counting_func w args kw = (Suc w, Inr (length args))"

definition noisy_schema :: Schema where
  "noisy_schema =
     \<lparr> expected_dims = Concrete [''foo''],
       expected_coords = Concrete [(''bar'', [LInt 1, LFloat 2])],
       dim_match_type = ''exact'', coord_match_type = ''minimum'',
       min_value = Fin 3, max_value = Fin 0, nan_values_allowed = False,
       raise_errors = False \<rparr>"

definition nan_array :: DataArray where
  "nan_array =
     \<lparr> dims = [''bar''], coords = [(''bar'', Array1 [LInt 1, LInt 5])], vals = [Fin 1, NaN] \<rparr>"

definition bounded_schema :: Schema where
  "bounded_schema =
     \<lparr> expected_dims = Concrete [], expected_coords = Concrete [],
       dim_match_type = ''exact'', coord_match_type = ''exact'',
       min_value = Fin (- 100), max_value = Fin 100, nan_values_allowed = True,
       raise_errors = True \<rparr>"

definition low_array :: DataArray where
  "low_array = \<lparr> dims = [''foo''], coords = [(''foo'', Array1 [LInt 1])], vals = [Fin (- 101)] \<rparr>"

definition lower_array :: DataArray where
  "lower_array = \<lparr> dims = [''foo''], coords = [(''foo'', Array1 [LInt 1])], vals = [Fin (- 500)] \<rparr>"

section \<open>Sequencing\<close>

lemma and_then_lift_Inr [simp]: "and_then (lift (Inr x)) f = f x"
  by (simp add: and_then_def lift_def split: prod.splits)

lemma and_then_lift_Inl [simp]: "and_then (lift (Inl e)) f = ([], Inl e)"
  by (simp add: and_then_def lift_def)

lemma then_do_ret [simp]: "then_do (ret ()) k = k"
  by (simp add: then_do_def and_then_def ret_def split: prod.splits)

section \<open>Dimension checks\<close>

text \<open>
  The loop of \<^verbatim>\<open>_match_minimum_dims\<close> asks of every expected name whether it is in
  the expected names, so \<^verbatim>\<open>missing_dims\<close> stays empty whatever the array is.
\<close>

lemma match_minimum_dims_silent:
  "expected_dims self = Concrete eds \<Longrightarrow> match_minimum_dims self data = ret ()"
  by (simp add: match_minimum_dims_def filter_empty_conv)

text \<open>
  C1. The claim: in MINIMUM mode a missing-dimensions violation is reported exactly when
  some expected name is absent from the array's dimensions. The code does not do that:
  a schema expecting \<open>foo\<close> accepts an array whose only dimension is \<open>bar\<close>; the check
  and the whole of \<open>validate\<close> return normally and nothing is raised or logged.
\<close>

theorem minimum_dims_missing_not_reported:
  "match_minimum_dims dims_schema bar_array = ([], Inr ()) \<and>
   validate dims_schema bar_array = ([], Inr ()) \<and>
   \<not> List.member (dims bar_array) ''foo''"
  by code_simp

section \<open>Coordinate checks\<close>

text \<open>
  C2. The claim: in MINIMUM mode a missing expected key is reported through the
  raise-or-log policy and no other error escapes. The code reads
  \<^verbatim>\<open>coords[coord_name]\<close> for the missing key right after recording it: with
  \<open>raise_errors\<close> false, an expected coordinate \<open>foo\<close> and an array that only has
  \<open>bar\<close>, \<open>validate\<close> ends in a KeyError and logs nothing.
\<close>

theorem minimum_coords_missing_key_error:
  "validate coords_schema bar_array = ([], Inl (KeyError ''foo''))"
  by code_simp

text \<open>
  C5. An empty \<open>expected_dims\<close> skips the dimension check and an empty
  \<open>expected_coords\<close> skips the coordinate check, in EXACT and in MINIMUM mode: the
  check returns normally, raises nothing and logs nothing, whatever the array is.
\<close>

theorem empty_expectation_skips_check:
  "(expected_dims self = Concrete [] \<longrightarrow>
      match_dims_exactly self data = ([], Inr ()) \<and>
      match_minimum_dims self data = ([], Inr ())) \<and>
   (expected_coords self = Concrete [] \<longrightarrow>
      match_coords_exactly self data = ([], Inr ()) \<and>
      match_minimum_coords self data = ([], Inr ()))"
  by (simp add: match_dims_exactly_def match_minimum_dims_def match_coords_exactly_def
      match_minimum_coords_def ret_def)

theorem empty_expectation_skips_check_witness:
  "match_dims_exactly (dims_schema\<lparr>expected_dims := Concrete []\<rparr>) scalar_array = ([], Inr ()) \<and>
   match_minimum_dims (dims_schema\<lparr>expected_dims := Concrete []\<rparr>) scalar_array = ([], Inr ()) \<and>
   match_coords_exactly dims_schema scalar_array = ([], Inr ()) \<and>
   match_minimum_coords dims_schema scalar_array = ([], Inr ())"
  using empty_expectation_skips_check [of "dims_schema\<lparr>expected_dims := Concrete []\<rparr>" scalar_array]
    empty_expectation_skips_check [of dims_schema scalar_array]
  by (simp add: dims_schema_def)

section \<open>Construction\<close>

text \<open>
  C3. The claim: construction fails when \<open>dim_match_type\<close> or \<open>coord_match_type\<close> is
  outside EXACT and MINIMUM. The constructor tests \<open>dim_match_type\<close> only: with
  \<open>coord_match_type = bogus\<close> it returns a Schema that stores the value.
\<close>

theorem coord_match_type_not_checked:
  "Schema_init (Concrete []) ''exact'' (Concrete []) ''bogus'' NegInf PosInf True True =
     Inr \<lparr> expected_dims = Concrete [], expected_coords = Concrete [],
           dim_match_type = ''exact'', coord_match_type = ''bogus'',
           min_value = NegInf, max_value = PosInf, nan_values_allowed = True,
           raise_errors = True \<rparr>"
  by (simp add: Schema_init_def VALID_MATCH_TYPES_def EXACT_MATCH_TYPE_def)

section \<open>Coordinate extraction\<close>

text \<open>
  C9. The claim: every scalar coordinate, whatever its element type, becomes a
  one-element sequence. The code wraps a scalar only when it is an int: an array with a
  scalar float coordinate \<open>t = 1.5\<close> makes \<open>coords_as_dict\<close> raise a TypeError.
\<close>

theorem scalar_float_coord_type_error:
  "coords_as_dict scalar_array = Inl (TypeError ''iteration over a 0-d array'')"
  by (simp add: coords_as_dict_def scalar_array_def)

section \<open>Resolution\<close>

text \<open>
  C6. Resolution is one-way and idempotent once concrete: a concrete \<open>expected_dims\<close>
  (or \<open>expected_coords\<close>) is left as it is by \<open>resolve_expected_dims\<close> (or
  \<open>resolve_expected_coords\<close>) for any keyword arguments; a callback is replaced by the
  value it returns on the given keyword arguments, and a second resolution with other
  keyword arguments \<open>kw'\<close> changes nothing.
\<close>

theorem resolve_once_concrete:
  "(expected_dims self = Concrete ds \<longrightarrow> resolve_expected_dims self kw = Inr self) \<and>
   (expected_coords self = Concrete cs \<longrightarrow> resolve_expected_coords self kw = Inr self) \<and>
   (expected_dims self = Callback f \<longrightarrow> f kw = Inr ds' \<longrightarrow>
      resolve_expected_dims self kw = Inr (self\<lparr>expected_dims := Concrete ds'\<rparr>) \<and>
      resolve_expected_dims (self\<lparr>expected_dims := Concrete ds'\<rparr>) kw' =
        Inr (self\<lparr>expected_dims := Concrete ds'\<rparr>)) \<and>
   (expected_coords self = Callback g \<longrightarrow> g kw = Inr cs' \<longrightarrow>
      resolve_expected_coords self kw = Inr (self\<lparr>expected_coords := Concrete cs'\<rparr>) \<and>
      resolve_expected_coords (self\<lparr>expected_coords := Concrete cs'\<rparr>) kw' =
        Inr (self\<lparr>expected_coords := Concrete cs'\<rparr>))"
  by (simp add: resolve_expected_dims_def resolve_expected_coords_def)

theorem resolve_once_concrete_witness:
  "resolve_expected_dims dims_schema [''gbd_round_id'' \<mapsto> IntArg 6] = Inr dims_schema \<and>
   resolve_expected_coords dims_schema [''gbd_round_id'' \<mapsto> IntArg 6] = Inr dims_schema \<and>
   resolve_expected_dims dynamic_schema [''gbd_round_id'' \<mapsto> IntArg 6] =
     Inr (dynamic_schema\<lparr>expected_dims := Concrete [''foo'']\<rparr>) \<and>
   resolve_expected_dims (dynamic_schema\<lparr>expected_dims := Concrete [''foo'']\<rparr>)
       [''gbd_round_id'' \<mapsto> IntArg 7] =
     Inr (dynamic_schema\<lparr>expected_dims := Concrete [''foo'']\<rparr>) \<and>
   resolve_expected_coords dynamic_schema [''gbd_round_id'' \<mapsto> IntArg 6] =
     Inr (dynamic_schema\<lparr>expected_coords := Concrete [(''foo'', [LInt 1, LInt 2])]\<rparr>) \<and>
   resolve_expected_coords
       (dynamic_schema\<lparr>expected_coords := Concrete [(''foo'', [LInt 1, LInt 2])]\<rparr>)
       [''gbd_round_id'' \<mapsto> IntArg 7] =
     Inr (dynamic_schema\<lparr>expected_coords := Concrete [(''foo'', [LInt 1, LInt 2])]\<rparr>)"
  using resolve_once_concrete [of dims_schema "[''foo'']" "[''gbd_round_id'' \<mapsto> IntArg 6]" "[]"]
    resolve_once_concrete [of dynamic_schema _ "[''gbd_round_id'' \<mapsto> IntArg 6]" _
      round_dims "[''foo'']" "[''gbd_round_id'' \<mapsto> IntArg 7]"
      round_coords "[(''foo'', [LInt 1, LInt 2])]"]
  by (simp add: dims_schema_def dynamic_schema_def round_dims_def round_coords_def)

section \<open>Raising and logging\<close>

lemma then_do_reports: "then_do (reports r a) (reports r b) = reports r (a @ b)"
  by (cases a) (auto simp: then_do_def and_then_def reports_def)

lemma log_or_raise_reports: "log_or_raise self m = reports (raise_errors self) [m]"
  by (simp add: log_or_raise_def reports_def raise_exn_def warning_def)

lemma ret_reports: "ret () = reports r []"
  by (simp add: ret_def reports_def)

lemma fst_reports_log [simp]: "fst (reports False ms) = ms"
  by (simp add: reports_def)

lemma fst_reports_nil [simp]: "fst (reports r []) = []"
  by (simp add: reports_def)

lemma then_do_reports_nil [simp]: "then_do (reports r []) k = k"
  by (simp add: reports_def then_do_def and_then_def split: prod.splits)

lemma if_reports: "(if c then reports r a else reports r b) = reports r (if c then a else b)"
  by simp

lemma match_dims_exactly_reports:
  "expected_dims self = Concrete eds \<Longrightarrow>
   match_dims_exactly self data =
     reports (raise_errors self) (fst (match_dims_exactly (self\<lparr>raise_errors := False\<rparr>) data))"
  by (simp add: match_dims_exactly_def log_or_raise_reports ret_reports [of "raise_errors self"]
      ret_reports [of False])

lemma match_minimum_dims_reports:
  "expected_dims self = Concrete eds \<Longrightarrow>
   match_minimum_dims self data =
     reports (raise_errors self) (fst (match_minimum_dims (self\<lparr>raise_errors := False\<rparr>) data))"
  by (simp add: match_minimum_dims_silent [of _ eds] ret_reports [of "raise_errors self"]
      ret_reports [of False])

lemma ensure_no_nan_values_reports:
  "ensure_no_nan_values self data =
     reports (raise_errors self) (fst (ensure_no_nan_values (self\<lparr>raise_errors := False\<rparr>) data))"
  by (simp add: ensure_no_nan_values_def log_or_raise_reports ret_reports [of "raise_errors self"]
      ret_reports [of False])

lemma ensure_values_above_minimum_reports:
  "ensure_values_above_minimum self data =
     reports (raise_errors self)
       (fst (ensure_values_above_minimum (self\<lparr>raise_errors := False\<rparr>) data))"
  by (simp add: ensure_values_above_minimum_def log_or_raise_reports
      ret_reports [of "raise_errors self"] ret_reports [of False])

lemma ensure_values_below_maximum_reports:
  "ensure_values_below_maximum self data =
     reports (raise_errors self)
       (fst (ensure_values_below_maximum (self\<lparr>raise_errors := False\<rparr>) data))"
  by (simp add: ensure_values_below_maximum_def log_or_raise_reports
      ret_reports [of "raise_errors self"] ret_reports [of False])

lemma match_coords_exactly_reports:
  "expected_coords self = Concrete ecs \<Longrightarrow> ecs = [] \<or> coords_as_dict data = Inr cd \<Longrightarrow>
   match_coords_exactly self data =
     reports (raise_errors self) (fst (match_coords_exactly (self\<lparr>raise_errors := False\<rparr>) data))"
  by (auto simp: match_coords_exactly_def log_or_raise_reports ret_reports [of "raise_errors self"]
      ret_reports [of False])

lemma getitem_present:
  "List.member (map fst d) k \<Longrightarrow> \<exists>v. getitem d k = Inr v"
  by (cases "map_of d k") (auto simp: getitem_def map_of_eq_None_iff)

lemma minimum_coords_loop_present:
  "list_all (\<lambda>k. List.member (map fst cd) k) (map fst ecs) \<Longrightarrow>
   \<exists>mm. minimum_coords_loop cd ecs ms mm0 = Inr (ms, mm) \<and>
         set mm \<subseteq> set mm0 \<union> set (map fst ecs)"
proof (induction ecs arbitrary: mm0)
  case Nil
  then show ?case by simp
next
  case (Cons p ecs)
  obtain k v where p: "p = (k, v)" by (cases p)
  from Cons.prems p have k: "List.member (map fst cd) k"
    and rest: "list_all (\<lambda>k. List.member (map fst cd) k) (map fst ecs)"
    by simp_all
  from getitem_present [OF k] obtain found where found: "getitem cd k = Inr found" ..
  from Cons.IH [OF rest, of "if \<not> issuperset found v then mm0 @ [k] else mm0"]
  obtain mm where
    "minimum_coords_loop cd ecs ms (if \<not> issuperset found v then mm0 @ [k] else mm0) =
       Inr (ms, mm)"
    "set mm \<subseteq> set (if \<not> issuperset found v then mm0 @ [k] else mm0) \<union> set (map fst ecs)"
    by blast
  with p k found show ?case
    by (auto split: if_splits)
qed

lemma expected_parts_present:
  "set mm \<subseteq> set (map fst ecs) \<Longrightarrow> \<exists>eps. expected_parts ecs mm = Inr eps"
proof (induction mm)
  case Nil
  then show ?case by simp
next
  case (Cons c mm)
  then have "List.member (map fst ecs) c" by simp
  from getitem_present [OF this] obtain v where "getitem ecs c = Inr v" ..
  moreover from Cons obtain eps where "expected_parts ecs mm = Inr eps" by auto
  ultimately show ?case by simp
qed

lemma match_minimum_coords_reports:
  assumes "expected_coords self = Concrete ecs"
    and "ecs = [] \<or> (coords_as_dict data = Inr cd \<and>
           list_all (\<lambda>k. List.member (map fst cd) k) (map fst ecs))"
  shows "match_minimum_coords self data =
     reports (raise_errors self) (fst (match_minimum_coords (self\<lparr>raise_errors := False\<rparr>) data))"
proof (cases "ecs = []")
  case True
  with assms(1) show ?thesis
    by (simp add: match_minimum_coords_def ret_reports [of "raise_errors self"]
        ret_reports [of False])
next
  case False
  with assms(2) have cd: "coords_as_dict data = Inr cd"
    and present: "list_all (\<lambda>k. List.member (map fst cd) k) (map fst ecs)"
    by simp_all
  from minimum_coords_loop_present [OF present, of "[]" "[]"]
  obtain mm where loop: "minimum_coords_loop cd ecs [] [] = Inr ([], mm)"
    and sub: "set mm \<subseteq> set (map fst ecs)"
    by auto
  from expected_parts_present [OF sub] obtain eps where eps: "expected_parts ecs mm = Inr eps" ..
  from assms(1) False cd loop eps show ?thesis
    by (simp add: match_minimum_coords_def log_or_raise_reports
        ret_reports [of "raise_errors self"] ret_reports [of False])
qed

lemma validate_checks:
  "validate self data =
     then_do (checks self data ! 0) (then_do (checks self data ! 1)
       (then_do (checks self data ! 2) (then_do (checks self data ! 3) (checks self data ! 4))))"
  by (simp add: validate_def checks_def)

lemma validate_reports:
  assumes "expected_dims self = Concrete eds"
    and "expected_coords self = Concrete ecs"
    and "ecs = [] \<or>
         (\<exists>cd. coords_as_dict data = Inr cd \<and>
            (coord_match_type self = ''exact'' \<or>
             list_all (\<lambda>k. List.member (map fst cd) k) (map fst ecs)))"
  shows "validate self data = reports (raise_errors self) (violations self data)"
proof -
  let ?r = "raise_errors self"
  let ?L = "self\<lparr>raise_errors := False\<rparr>"
  have c0: "checks self data ! 0 = reports ?r (fst (checks ?L data ! 0))"
    using assms(1) match_dims_exactly_reports [of self eds data]
      match_minimum_dims_reports [of self eds data]
    by (simp add: checks_def)
  have c1: "checks self data ! 1 = reports ?r (fst (checks ?L data ! 1))"
  proof (cases "coord_match_type self = ''exact''")
    case True
    with assms(2,3) show ?thesis
      using match_coords_exactly_reports [of self ecs data]
      by (auto simp: checks_def)
  next
    case False
    with assms(2,3) show ?thesis
      using match_minimum_coords_reports [of self ecs data]
      by (auto simp: checks_def)
  qed
  have c2: "checks self data ! 2 = reports ?r (fst (checks ?L data ! 2))"
    using ensure_no_nan_values_reports [of self data]
    by (simp add: checks_def ret_reports [of ?r] ret_reports [of False])
  have c3: "checks self data ! 3 = reports ?r (fst (checks ?L data ! 3))"
    using ensure_values_above_minimum_reports [of self data] by (simp add: checks_def)
  have c4: "checks self data ! 4 = reports ?r (fst (checks ?L data ! 4))"
    using ensure_values_below_maximum_reports [of self data] by (simp add: checks_def)
  have v: "violations self data =
      fst (checks ?L data ! 0) @ fst (checks ?L data ! 1) @ fst (checks ?L data ! 2) @
      fst (checks ?L data ! 3) @ fst (checks ?L data ! 4)"
    by (simp add: violations_def checks_def)
  show ?thesis
    unfolding validate_checks v
    by (subst c0, subst c1, subst c2, subst c3, subst c4) (simp only: then_do_reports)
qed

text \<open>
  C4, as the claim states it: for every Schema and array, with \<open>raise_errors\<close> false
  \<open>validate\<close> returns normally. It does not for a schema whose expectations are still
  callbacks: \<^verbatim>\<open>len\<close> of a function raises a TypeError, whatever \<open>raise_errors\<close> is.
\<close>

theorem validate_unresolved_log_mode_raises:
  "\<not> raise_errors (dynamic_schema\<lparr>raise_errors := False\<rparr>) \<and>
   validate (dynamic_schema\<lparr>raise_errors := False\<rparr>) foo_array =
     ([], Inl (TypeError ''object of type function has no len()''))"
  by (simp add: dynamic_schema_def validate_def match_minimum_dims_def EXACT_MATCH_TYPE_def
      then_do_def and_then_def lift_def)

text \<open>
  C4, amended. For a schema whose expectations are concrete and an array whose
  coordinates can be extracted and, in MINIMUM mode, hold every expected key (or with an
  empty \<open>expected_coords\<close>): with \<open>raise_errors\<close> false, \<open>validate\<close> returns normally
  and has logged what each of the five checks logs on its own, in the order dimensions,
  coordinates, NaN, minimum, maximum; with \<open>raise_errors\<close> true it logs nothing and
  raises the first of these violations, or returns normally when there is none.
\<close>

theorem validate_policy:
  assumes "expected_dims self = Concrete eds"
    and "expected_coords self = Concrete ecs"
    and "ecs = [] \<or>
         (\<exists>cd. coords_as_dict data = Inr cd \<and>
            (coord_match_type self = ''exact'' \<or>
             list_all (\<lambda>k. List.member (map fst cd) k) (map fst ecs)))"
  shows "validate self data =
     (if raise_errors self
      then ([], case violations self data of [] \<Rightarrow> Inr () | m # _ \<Rightarrow> Inl (Exception m))
      else (violations self data, Inr ()))"
  using validate_reports [OF assms] by (simp add: reports_def)

theorem validate_policy_witness:
  "validate noisy_schema nan_array = (violations noisy_schema nan_array, Inr ()) \<and>
   length (violations noisy_schema nan_array) = 5 \<and>
   validate (noisy_schema\<lparr>raise_errors := True\<rparr>) nan_array =
     ([], Inl (Exception
        [Lit ''Data dims do not exactly match the expected ones. '',
         Lit ''Expected: '', FStrList [''foo''], Lit ''. Found: '', FStrTuple [''bar''],
         Lit ''.'']))"
proof -
  let ?ecs = "[(''bar'', [LInt 1, LFloat 2])]"
  have cd: "coords_as_dict nan_array = Inr [(''bar'', [LInt 1, LInt 5])]"
    by (simp add: coords_as_dict_def nan_array_def)
  have h3: "?ecs = [] \<or>
     (\<exists>cd. coords_as_dict nan_array = Inr cd \<and>
        (coord_match_type noisy_schema = ''exact'' \<or>
         list_all (\<lambda>k. List.member (map fst cd) k) (map fst ?ecs)))"
    using cd by simp
  have h3': "?ecs = [] \<or>
     (\<exists>cd. coords_as_dict nan_array = Inr cd \<and>
        (coord_match_type (noisy_schema\<lparr>raise_errors := True\<rparr>) = ''exact'' \<or>
         list_all (\<lambda>k. List.member (map fst cd) k) (map fst ?ecs)))"
    using cd by simp
  have v: "violations noisy_schema nan_array =
    [[Lit ''Data dims do not exactly match the expected ones. '',
      Lit ''Expected: '', FStrList [''foo''], Lit ''. Found: '', FStrTuple [''bar''],
      Lit ''.''],
     [Lit ''Data has mismatching coordinate values for coords: '', FStrList [''bar''],
      Lit ''. Expected: '', FStr ''bar'', Lit '': '', FLabels [LInt 1, LFloat 2],
      Lit ''. '', Lit ''Found: '', FStr ''bar'', Lit '': '', FLabels [LInt 1, LInt 5], Lit ''.''],
     [Lit ''Identified NaN values!''],
     [Lit ''Identified values less than the set minimum: '', FNum (Fin 3), Lit ''.''],
     [Lit ''Identified values greater than the set maximum: '', FNum (Fin 0), Lit ''.'']]"
    by code_simp
  have v': "violations (noisy_schema\<lparr>raise_errors := True\<rparr>) nan_array =
      violations noisy_schema nan_array"
    by (simp add: violations_def)
  have ed: "expected_dims noisy_schema = Concrete [''foo'']"
    and ec: "expected_coords noisy_schema = Concrete ?ecs"
    and re: "\<not> raise_errors noisy_schema"
    by (simp_all add: noisy_schema_def)
  have ed': "expected_dims (noisy_schema\<lparr>raise_errors := True\<rparr>) = Concrete [''foo'']"
    and ec': "expected_coords (noisy_schema\<lparr>raise_errors := True\<rparr>) = Concrete ?ecs"
    by (simp_all add: noisy_schema_def)
  from validate_policy [OF ed ec h3] validate_policy [OF ed' ec' h3'] re
  show ?thesis
    by (simp add: v v')
qed

section \<open>Violation messages\<close>

lemma produced_ret [simp]: "\<not> produced (ret ()) m"
  by (simp add: produced_def ret_def)

lemma produced_log_or_raise [simp]: "produced (log_or_raise self M) m \<longleftrightarrow> m = M"
  by (auto simp: produced_def log_or_raise_def raise_exn_def warning_def)

lemma produced_Inl [simp]: "produced ([], Inl e) m \<longleftrightarrow> e = Exception m"
  by (auto simp: produced_def)

lemma produced_then_do: "produced (then_do a b) m \<Longrightarrow> produced a m \<or> produced b m"
  by (cases a; cases b) (auto simp: produced_def then_do_def and_then_def split: sum.splits)

lemma produced_and_then_lift:
  "produced (and_then (lift r) f) m \<longleftrightarrow>
     (case r of Inl e \<Rightarrow> e = Exception m | Inr x \<Rightarrow> produced (f x) m)"
  by (cases r) (simp_all add: produced_def)

lemma sized_Inl: "sized x = Inl e \<Longrightarrow> e \<noteq> Exception m"
  by (cases x) auto

lemma coords_as_dict_loop_Inl: "coords_as_dict_loop cs acc = Inl e \<Longrightarrow> e \<noteq> Exception m"
  by (induction cs acc rule: coords_as_dict_loop.induct) (auto split: if_splits)

lemma coords_as_dict_Inl: "coords_as_dict data = Inl e \<Longrightarrow> e \<noteq> Exception m"
  unfolding coords_as_dict_def by (rule coords_as_dict_loop_Inl)

lemma getitem_Inl: "getitem d k = Inl e \<Longrightarrow> e \<noteq> Exception m"
  by (auto simp: getitem_def split: option.splits)

lemma minimum_coords_loop_Inl:
  "minimum_coords_loop cd ecs ms mm = Inl e \<Longrightarrow> e \<noteq> Exception m"
  by (induction cd ecs ms mm rule: minimum_coords_loop.induct)
    (auto simp: Let_def getitem_def split: sum.splits option.splits if_splits)

lemma expected_parts_Inl: "expected_parts ecs mm = Inl e \<Longrightarrow> e \<noteq> Exception m"
  by (induction mm arbitrary: e) (auto simp: getitem_def split: sum.splits option.splits)

lemma set_join: "p \<in> set ps \<Longrightarrow> set p \<subseteq> set (join ps)"
  by (induction ps rule: join.induct) auto

lemma expected_parts_names:
  "expected_parts ecs mm = Inr eps \<Longrightarrow> c \<in> set mm \<Longrightarrow>
   \<exists>v. map_of ecs c = Some v \<and> [FStr c, Lit '': '', FLabels v] \<in> set eps"
  by (induction mm arbitrary: eps) (auto simp: getitem_def split: sum.splits option.splits)

lemma minimum_coords_loop_found:
  "minimum_coords_loop cd ecs ms mm0 = Inr (ms', mm) \<Longrightarrow> c \<in> set mm \<Longrightarrow>
   c \<in> set mm0 \<or> (\<exists>f. map_of cd c = Some f)"
proof (induction ecs arbitrary: ms mm0)
  case Nil
  then show ?case by simp
next
  case (Cons p ecs)
  obtain k v where p: "p = (k, v)" by (cases p)
  from Cons.prems(1) p obtain found where found: "map_of cd k = Some found"
    by (cases "map_of cd k") (auto simp: getitem_def Let_def)
  let ?ms = "if \<not> List.member (map fst cd) k then ms @ [k] else ms"
  let ?mm = "if \<not> issuperset found v then mm0 @ [k] else mm0"
  from Cons.prems(1) p found have "minimum_coords_loop cd ecs ?ms ?mm = Inr (ms', mm)"
    by (simp add: getitem_def Let_def)
  from Cons.IH [OF this Cons.prems(2)] found show ?case
    by (auto split: if_splits)
qed

lemma found_parts_names:
  "map_of cd c = Some f \<Longrightarrow> c \<in> set mm \<Longrightarrow>
   [FStr c, Lit '': '', FLabels f] \<in> set (found_parts cd mm)"
  by (force simp: found_parts_def dest: map_of_SomeD)

lemma dims_exactly_message:
  "produced (match_dims_exactly self data) m \<Longrightarrow>
   \<exists>eds. expected_dims self = Concrete eds \<and> FStrList eds \<in> set m \<and>
     FStrTuple (dims data) \<in> set m"
  by (cases "expected_dims self")
    (auto simp: match_dims_exactly_def produced_and_then_lift split: if_splits)

lemma coords_exactly_message:
  "produced (match_coords_exactly self data) m \<Longrightarrow>
   \<exists>ecs cd. expected_coords self = Concrete ecs \<and> coords_as_dict data = Inr cd \<and>
     FCoordDict ecs \<in> set m \<and> FCoordDict cd \<in> set m"
  by (cases "expected_coords self"; cases "coords_as_dict data")
    (auto simp: match_coords_exactly_def produced_and_then_lift dest: coords_as_dict_Inl
      split: if_splits)

lemma minimum_coords_message:
  assumes "produced (match_minimum_coords self data) m"
  shows "\<exists>ecs cd. expected_coords self = Concrete ecs \<and> coords_as_dict data = Inr cd \<and>
     ((FKeys (map fst ecs) \<in> set m \<and> FKeys (map fst cd) \<in> set m) \<or>
      (\<exists>mm. mm \<noteq> [] \<and> FStrList mm \<in> set m \<and>
         list_all (\<lambda>c. \<exists>v f. map_of ecs c = Some v \<and> map_of cd c = Some f \<and>
                          FLabels v \<in> set m \<and> FLabels f \<in> set m) mm))"
proof -
  from assms obtain ecs where ecs: "expected_coords self = Concrete ecs" "ecs \<noteq> []"
    by (cases "expected_coords self")
      (auto simp: match_minimum_coords_def produced_and_then_lift split: if_splits)
  with assms obtain cd where cd: "coords_as_dict data = Inr cd"
    by (cases "coords_as_dict data")
      (auto simp: match_minimum_coords_def produced_and_then_lift dest: coords_as_dict_Inl)
  with assms ecs obtain ms mm where loop: "minimum_coords_loop cd ecs [] [] = Inr (ms, mm)"
    by (cases "minimum_coords_loop cd ecs [] []")
      (auto simp: match_minimum_coords_def produced_and_then_lift dest: minimum_coords_loop_Inl)
  let ?A = "if ms \<noteq> []
      then log_or_raise self
        [Lit ''Data is missing coordinate(s): '', FStrList ms, Lit ''. '',
         Lit ''Expected: '', FKeys (map fst ecs), Lit ''. Found: '', FKeys (map fst cd)]
      else ret ()"
  let ?M = "\<lambda>eps. [Lit ''Data has mismatching coordinate values for coords: '',
                    FStrList mm, Lit ''. Expected: ''] @ join eps @
                   [Lit ''. '', Lit ''Found: ''] @ join (found_parts cd mm) @
                   [Lit ''.'']"
  let ?B = "if mm \<noteq> []
      then and_then (lift (expected_parts ecs mm)) (\<lambda>eps. log_or_raise self (?M eps))
      else ret ()"
  from assms ecs cd loop have "produced (then_do ?A ?B) m"
    by (simp add: match_minimum_coords_def)
  then have "produced ?A m \<or> produced ?B m"
    by (rule produced_then_do)
  then show ?thesis
  proof
    assume "produced ?A m"
    then have "FKeys (map fst ecs) \<in> set m \<and> FKeys (map fst cd) \<in> set m"
      by (auto split: if_splits)
    with ecs cd show ?thesis by blast
  next
    assume B: "produced ?B m"
    then have mm: "mm \<noteq> []"
      by (auto split: if_splits)
    with B obtain eps where eps: "expected_parts ecs mm = Inr eps" and m: "m = ?M eps"
      by (cases "expected_parts ecs mm") (auto simp: produced_and_then_lift dest: expected_parts_Inl)
    have "\<exists>v f. map_of ecs c = Some v \<and> map_of cd c = Some f \<and>
                FLabels v \<in> set m \<and> FLabels f \<in> set m" if c: "c \<in> set mm" for c
    proof -
      from expected_parts_names [OF eps c] obtain v
        where v: "map_of ecs c = Some v" "[FStr c, Lit '': '', FLabels v] \<in> set eps"
        by blast
      from minimum_coords_loop_found [OF loop c] obtain f where f: "map_of cd c = Some f"
        by auto
      from set_join [OF v(2)] have "FLabels v \<in> set (join eps)"
        by auto
      moreover from set_join [OF found_parts_names [OF f c]]
      have "FLabels f \<in> set (join (found_parts cd mm))"
        by auto
      ultimately show ?thesis
        using v(1) f m by auto
    qed
    then have "list_all (\<lambda>c. \<exists>v f. map_of ecs c = Some v \<and> map_of cd c = Some f \<and>
                          FLabels v \<in> set m \<and> FLabels f \<in> set m) mm"
      by (simp add: list_all_iff)
    moreover from m have "FStrList mm \<in> set m"
      by simp
    ultimately show ?thesis
      using ecs cd mm by blast
  qed
qed

text \<open>
  C8, as the claim states it: every violation message names the found values, the
  below-minimum message among them. It does not: with a minimum of \<open>-100\<close>, an array
  holding \<open>-101\<close> and an array holding \<open>-500\<close> raise the very same message, which
  names the bound and nothing of the array.
\<close>

theorem below_minimum_message_omits_found:
  "validate bounded_schema low_array =
     ([], Inl (Exception
        [Lit ''Identified values less than the set minimum: '', FNum (Fin (- 100)),
         Lit ''.''])) \<and>
   validate bounded_schema lower_array = validate bounded_schema low_array \<and>
   vals lower_array \<noteq> vals low_array"
  by code_simp

text \<open>
  C8, amended. The messages of the exact dimension check and of the exact and minimum
  coordinate checks name both what was expected and what was found: the expected and the
  found dimensions; the expected and the found coordinate mapping; the expected and the
  found keys, or, for every coordinate listed as mismatching, its expected and its found
  values. The below-minimum and above-maximum messages name the configured bound only, and
  the NaN message is a fixed text: these three say nothing of the values found.
\<close>

theorem violation_messages_content:
  "(produced (match_dims_exactly self data) m \<longrightarrow>
      (\<exists>eds. expected_dims self = Concrete eds \<and> FStrList eds \<in> set m \<and>
         FStrTuple (dims data) \<in> set m)) \<and>
   (produced (match_coords_exactly self data) m \<longrightarrow>
      (\<exists>ecs cd. expected_coords self = Concrete ecs \<and> coords_as_dict data = Inr cd \<and>
         FCoordDict ecs \<in> set m \<and> FCoordDict cd \<in> set m)) \<and>
   (produced (match_minimum_coords self data) m \<longrightarrow>
      (\<exists>ecs cd. expected_coords self = Concrete ecs \<and> coords_as_dict data = Inr cd \<and>
         ((FKeys (map fst ecs) \<in> set m \<and> FKeys (map fst cd) \<in> set m) \<or>
          (\<exists>mm. mm \<noteq> [] \<and> FStrList mm \<in> set m \<and>
             list_all (\<lambda>c. \<exists>v f. map_of ecs c = Some v \<and> map_of cd c = Some f \<and>
                              FLabels v \<in> set m \<and> FLabels f \<in> set m) mm)))) \<and>
   (produced (ensure_values_above_minimum self data) m \<longrightarrow>
      m = [Lit ''Identified values less than the set minimum: '', FNum (min_value self),
           Lit ''.'']) \<and>
   (produced (ensure_values_below_maximum self data) m \<longrightarrow>
      m = [Lit ''Identified values greater than the set maximum: '', FNum (max_value self),
           Lit ''.'']) \<and>
   (produced (ensure_no_nan_values self data) m \<longrightarrow> m = [Lit ''Identified NaN values!''])"
proof (intro conjI impI)
  show "m = [Lit ''Identified values less than the set minimum: '', FNum (min_value self),
             Lit ''.'']"
    if "produced (ensure_values_above_minimum self data) m"
    using that by (simp add: ensure_values_above_minimum_def split: if_splits)
  show "m = [Lit ''Identified values greater than the set maximum: '', FNum (max_value self),
             Lit ''.'']"
    if "produced (ensure_values_below_maximum self data) m"
    using that by (simp add: ensure_values_below_maximum_def split: if_splits)
  show "m = [Lit ''Identified NaN values!'']"
    if "produced (ensure_no_nan_values self data) m"
    using that by (simp add: ensure_no_nan_values_def split: if_splits)
qed (fact dims_exactly_message coords_exactly_message minimum_coords_message)+

theorem violation_messages_content_witness:
  "produced (match_dims_exactly noisy_schema nan_array)
     [Lit ''Data dims do not exactly match the expected ones. '',
      Lit ''Expected: '', FStrList [''foo''], Lit ''. Found: '', FStrTuple [''bar''],
      Lit ''.''] \<and>
   produced (match_coords_exactly noisy_schema nan_array)
     [Lit ''Data coords to not exactly match the expected ones. '',
      Lit ''Expected: '', FCoordDict [(''bar'', [LInt 1, LFloat 2])], Lit ''. Found: '',
      FCoordDict [(''bar'', [LInt 1, LInt 5])], Lit ''.''] \<and>
   produced (match_minimum_coords noisy_schema nan_array)
     [Lit ''Data has mismatching coordinate values for coords: '', FStrList [''bar''],
      Lit ''. Expected: '', FStr ''bar'', Lit '': '', FLabels [LInt 1, LFloat 2],
      Lit ''. '', Lit ''Found: '', FStr ''bar'', Lit '': '', FLabels [LInt 1, LInt 5], Lit ''.''] \<and>
   produced (ensure_values_above_minimum noisy_schema nan_array)
     [Lit ''Identified values less than the set minimum: '', FNum (min_value noisy_schema),
      Lit ''.''] \<and>
   produced (ensure_values_below_maximum noisy_schema nan_array)
     [Lit ''Identified values greater than the set maximum: '', FNum (max_value noisy_schema),
      Lit ''.''] \<and>
   produced (ensure_no_nan_values noisy_schema nan_array) [Lit ''Identified NaN values!''] \<and>
   expected_dims noisy_schema = Concrete [''foo'']"
proof -
  let ?M1 = "[Lit ''Data dims do not exactly match the expected ones. '',
      Lit ''Expected: '', FStrList [''foo''], Lit ''. Found: '', FStrTuple [''bar''],
      Lit ''.'']"
  let ?M2 = "[Lit ''Data coords to not exactly match the expected ones. '',
      Lit ''Expected: '', FCoordDict [(''bar'', [LInt 1, LFloat 2])], Lit ''. Found: '',
      FCoordDict [(''bar'', [LInt 1, LInt 5])], Lit ''.'']"
  let ?M3 = "[Lit ''Data has mismatching coordinate values for coords: '', FStrList [''bar''],
      Lit ''. Expected: '', FStr ''bar'', Lit '': '', FLabels [LInt 1, LFloat 2],
      Lit ''. '', Lit ''Found: '', FStr ''bar'', Lit '': '', FLabels [LInt 1, LInt 5], Lit ''.'']"
  let ?M4 = "[Lit ''Identified values less than the set minimum: '',
      FNum (min_value noisy_schema), Lit ''.'']"
  let ?M5 = "[Lit ''Identified values greater than the set maximum: '',
      FNum (max_value noisy_schema), Lit ''.'']"
  let ?M6 = "[Lit ''Identified NaN values!'']"
  have p1: "produced (match_dims_exactly noisy_schema nan_array) ?M1"
    by code_simp
  have p2: "produced (match_coords_exactly noisy_schema nan_array) ?M2"
    by code_simp
  have p3: "produced (match_minimum_coords noisy_schema nan_array) ?M3"
    by code_simp
  have p4: "produced (ensure_values_above_minimum noisy_schema nan_array) ?M4"
    by code_simp
  have p5: "produced (ensure_values_below_maximum noisy_schema nan_array) ?M5"
    by code_simp
  have p6: "produced (ensure_no_nan_values noisy_schema nan_array) ?M6"
    by code_simp
  from violation_messages_content [of noisy_schema nan_array ?M1] p1
  have "\<exists>eds. expected_dims noisy_schema = Concrete eds \<and> FStrList eds \<in> set ?M1"
    by blast
  then have c1: "expected_dims noisy_schema = Concrete [''foo'']"
    by auto
  from p1 p2 p3 p4 p5 p6 c1 show ?thesis
    by (intro conjI)
qed

section \<open>The input decorator\<close>

lemma method_call_plain [simp]: "kw ''self'' = None \<Longrightarrow> method_call meth schema kw = meth schema kw"
  by (simp add: method_call_def)

lemma check_input_self_kwarg:
  "kw ''self'' = Some a \<Longrightarrow>
   check_input arg_name func schema w args kw =
     (schema, w, [], Inl (TypeError ''got multiple values for argument self''))"
  by (simp add: check_input_def method_call_def)

lemma resolve_expected_dims_concrete:
  "resolve_expected_dims self kw = Inr s1 \<Longrightarrow> \<exists>ds. expected_dims s1 = Concrete ds"
  by (auto simp: resolve_expected_dims_def split: expectation.splits sum.splits)

lemma resolve_expected_coords_concrete:
  "resolve_expected_coords self kw = Inr s2 \<Longrightarrow>
   (\<exists>cs. expected_coords s2 = Concrete cs) \<and> expected_dims s2 = expected_dims self"
  by (auto simp: resolve_expected_coords_def split: expectation.splits sum.splits)

lemma check_input_validated:
  assumes "kw ''self'' = None"
    and "resolve_expected_dims schema kw = Inr s1"
    and "resolve_expected_coords s1 kw = Inr s2"
    and "kw arg_name = Some (ArrayArg data)"
    and "expected_coords s2 = Concrete ecs"
    and "ecs = [] \<or>
         (\<exists>cd. coords_as_dict data = Inr cd \<and>
            (coord_match_type s2 = ''exact'' \<or>
             list_all (\<lambda>k. List.member (map fst cd) k) (map fst ecs)))"
  shows "check_input arg_name func schema w args kw =
     (if raise_errors s2
      then (case violations s2 data of
              [] \<Rightarrow> (s2, fst (func w args kw), [], snd (func w args kw))
            | m # _ \<Rightarrow> (s2, w, [], Inl (Exception m)))
      else (s2, fst (func w args kw), violations s2 data, snd (func w args kw)))"
proof -
  from resolve_expected_dims_concrete [OF assms(2)]
    resolve_expected_coords_concrete [OF assms(3)]
  obtain eds where eds: "expected_dims s2 = Concrete eds"
    by auto
  have "validate s2 data = reports (raise_errors s2) (violations s2 data)"
    using eds assms(5,6) by (rule validate_reports)
  with assms(1-4) show ?thesis
    by (simp add: check_input_def reports_def split: list.splits prod.splits)
qed

text \<open>
  C7, as the claim states it: the wrapped function is invoked only after a successful
  validation. With \<open>raise_errors\<close> false it is invoked after a validation that found a
  violation: the array holds \<open>-101\<close> under a minimum of \<open>-100\<close>, the violation is
  logged, and the wrapped function has run (the world went from \<open>0\<close> to \<open>1\<close>).
\<close>

theorem check_input_runs_after_logged_violation:
  "check_input ''foo'' counting_func (bounded_schema\<lparr>raise_errors := False\<rparr>) 0 []
     [''foo'' \<mapsto> ArrayArg low_array] =
     (bounded_schema\<lparr>raise_errors := False\<rparr>, 1,
      [[Lit ''Identified values less than the set minimum: '', FNum (Fin (- 100)), Lit ''.'']],
      Inr 0)"
proof -
  let ?S = "bounded_schema\<lparr>raise_errors := False\<rparr>"
  let ?kw = "[''foo'' \<mapsto> ArrayArg low_array]"
  have r1: "resolve_expected_dims ?S ?kw = Inr ?S"
    by (simp add: resolve_expected_dims_def bounded_schema_def)
  have r2: "resolve_expected_coords ?S ?kw = Inr ?S"
    by (simp add: resolve_expected_coords_def bounded_schema_def)
  have v: "validate ?S low_array =
      ([[Lit ''Identified values less than the set minimum: '', FNum (Fin (- 100)),
         Lit ''.'']], Inr ())"
    by code_simp
  show ?thesis
    by (simp add: check_input_def method_call_def r1 r2 v counting_func_def)
qed

text \<open>
  C7, amended. For a call through the wrapper of \<open>check_input\<close> whose keyword arguments
  do not hold the name \<open>self\<close>: it resolves the expected dimensions, then the expected
  coordinates, from the keyword arguments, and the error of a callback ends the call; then
  it validates the keyword argument \<open>arg_name\<close> against the resolved schema, with a
  KeyError when that argument is absent; when \<open>validate\<close> raises, the call ends with that
  exception and the wrapped function is not run; when \<open>validate\<close> returns, the wrapped
  function is run on the original arguments and its result is returned as it is. Where
  \<open>validate\<close> meets no internal error, that is: with \<open>raise_errors\<close> true the function
  is run exactly when no check is violated, and the first violation is raised otherwise;
  with \<open>raise_errors\<close> false the function is run in any case, after the violations have
  been logged.
\<close>

theorem check_input_protocol:
  assumes "kw ''self'' = None"
  shows
  "(\<forall>e. resolve_expected_dims schema kw = Inl e \<longrightarrow>
      check_input arg_name func schema w args kw = (schema, w, [], Inl e)) \<and>
   (\<forall>s1 e. resolve_expected_dims schema kw = Inr s1 \<longrightarrow>
      resolve_expected_coords s1 kw = Inl e \<longrightarrow>
      check_input arg_name func schema w args kw = (s1, w, [], Inl e)) \<and>
   (\<forall>s1 s2. resolve_expected_dims schema kw = Inr s1 \<longrightarrow>
      resolve_expected_coords s1 kw = Inr s2 \<longrightarrow>
      (kw arg_name = None \<longrightarrow>
         check_input arg_name func schema w args kw = (s2, w, [], Inl (KeyError arg_name))) \<and>
      (\<forall>data lg e. kw arg_name = Some (ArrayArg data) \<longrightarrow> validate s2 data = (lg, Inl e) \<longrightarrow>
         check_input arg_name func schema w args kw = (s2, w, lg, Inl e)) \<and>
      (\<forall>data lg. kw arg_name = Some (ArrayArg data) \<longrightarrow> validate s2 data = (lg, Inr ()) \<longrightarrow>
         check_input arg_name func schema w args kw =
           (s2, fst (func w args kw), lg, snd (func w args kw))) \<and>
      (\<forall>data ecs. kw arg_name = Some (ArrayArg data) \<longrightarrow>
         expected_coords s2 = Concrete ecs \<longrightarrow>
         (ecs = [] \<or>
          (\<exists>cd. coords_as_dict data = Inr cd \<and>
             (coord_match_type s2 = ''exact'' \<or>
              list_all (\<lambda>k. List.member (map fst cd) k) (map fst ecs)))) \<longrightarrow>
         check_input arg_name func schema w args kw =
           (if raise_errors s2
            then (case violations s2 data of
                    [] \<Rightarrow> (s2, fst (func w args kw), [], snd (func w args kw))
                  | m # _ \<Rightarrow> (s2, w, [], Inl (Exception m)))
            else (s2, fst (func w args kw), violations s2 data, snd (func w args kw)))))"
proof (intro conjI allI impI)
  fix s1 s2 data ecs
  assume "resolve_expected_dims schema kw = Inr s1"
    and "resolve_expected_coords s1 kw = Inr s2"
    and "kw arg_name = Some (ArrayArg data)"
    and "expected_coords s2 = Concrete ecs"
    and "ecs = [] \<or>
          (\<exists>cd. coords_as_dict data = Inr cd \<and>
             (coord_match_type s2 = ''exact'' \<or>
              list_all (\<lambda>k. List.member (map fst cd) k) (map fst ecs)))"
  with assms show "check_input arg_name func schema w args kw =
           (if raise_errors s2
            then (case violations s2 data of
                    [] \<Rightarrow> (s2, fst (func w args kw), [], snd (func w args kw))
                  | m # _ \<Rightarrow> (s2, w, [], Inl (Exception m)))
            else (s2, fst (func w args kw), violations s2 data, snd (func w args kw)))"
    by (rule check_input_validated)
qed (insert assms, simp_all add: check_input_def split: prod.splits)

theorem check_input_protocol_witness:
  "check_input ''foo'' counting_func dynamic_schema 0 []
     [''gbd_round_id'' \<mapsto> IntArg 6, ''foo'' \<mapsto> ArrayArg foo_array] =
     (resolved_schema, 1, [], Inr 0) \<and>
   check_input ''foo'' counting_func dynamic_schema 0 []
     [''gbd_round_id'' \<mapsto> IntArg 6, ''foo'' \<mapsto> ArrayArg low_foo_array] =
     (resolved_schema, 0, [],
      Inl (Exception
        [Lit ''Identified values less than the set minimum: '', FNum (Fin (- 100)),
         Lit ''.''])) \<and>
   check_input ''foo'' counting_func (dynamic_schema\<lparr>raise_errors := False\<rparr>) 0 []
     [''gbd_round_id'' \<mapsto> IntArg 6, ''foo'' \<mapsto> ArrayArg low_foo_array] =
     (resolved_schema\<lparr>raise_errors := False\<rparr>, 1,
      [[Lit ''Identified values less than the set minimum: '', FNum (Fin (- 100)),
        Lit ''.'']],
      Inr 0) \<and>
   check_input ''foo'' counting_func dynamic_schema 0 [] [''gbd_round_id'' \<mapsto> IntArg 6] =
     (resolved_schema, 0, [], Inl (KeyError ''foo'')) \<and>
   check_input ''foo'' counting_func dynamic_schema 0 [] [''foo'' \<mapsto> ArrayArg foo_array] =
     (dynamic_schema, 0, [],
      Inl (Exception [Lit ''Could not get coordinates, gbd_round_id parameter not found.''])) \<and>
   check_input ''foo'' counting_func half_schema 0 [] [''foo'' \<mapsto> ArrayArg foo_array] =
     (half_schema, 0, [],
      Inl (Exception [Lit ''Could not get coordinates, gbd_round_id parameter not found.'']))"
proof -
  let ?kwA = "[''gbd_round_id'' \<mapsto> IntArg 6, ''foo'' \<mapsto> ArrayArg foo_array]"
  let ?kwB = "[''gbd_round_id'' \<mapsto> IntArg 6, ''foo'' \<mapsto> ArrayArg low_foo_array]"
  let ?kwC = "[''gbd_round_id'' \<mapsto> IntArg 6]"
  let ?kwD = "[''foo'' \<mapsto> ArrayArg foo_array]"
  let ?L = "dynamic_schema\<lparr>raise_errors := False\<rparr>"
  let ?RL = "resolved_schema\<lparr>raise_errors := False\<rparr>"
  let ?s1 = "dynamic_schema\<lparr>expected_dims := Concrete [''foo'']\<rparr>"
  let ?l1 = "?L\<lparr>expected_dims := Concrete [''foo'']\<rparr>"
  let ?ecs = "[(''foo'', [LInt 1, LInt 2])]"
  let ?low = "[Lit ''Identified values less than the set minimum: '', FNum (Fin (- 100)),
      Lit ''.'']"
  let ?cb = "Exception [Lit ''Could not get coordinates, gbd_round_id parameter not found.'']"
  have selfA: "?kwA ''self'' = None" and selfB: "?kwB ''self'' = None"
    and selfC: "?kwC ''self'' = None" and selfD: "?kwD ''self'' = None"
    by simp_all
  have gA: "?kwA ''gbd_round_id'' = Some (IntArg 6)"
    and gB: "?kwB ''gbd_round_id'' = Some (IntArg 6)"
    and gC: "?kwC ''gbd_round_id'' = Some (IntArg 6)"
    and aB: "?kwB ''foo'' = Some (ArrayArg low_foo_array)"
    by simp_all
  have r1: "resolve_expected_dims dynamic_schema kw = Inr ?s1"
    and r2: "resolve_expected_coords ?s1 kw = Inr resolved_schema"
    and l1: "resolve_expected_dims ?L kw = Inr ?l1"
    and l2: "resolve_expected_coords ?l1 kw = Inr ?RL"
    if "kw ''gbd_round_id'' = Some (IntArg 6)" for kw
    using that
    by (simp_all add: resolve_expected_dims_def resolve_expected_coords_def dynamic_schema_def
        round_dims_def round_coords_def resolved_schema_def)
  have e1: "resolve_expected_dims dynamic_schema ?kwD = Inl ?cb"
    by (simp add: resolve_expected_dims_def dynamic_schema_def round_dims_def)
  have h1: "resolve_expected_dims half_schema ?kwD = Inr half_schema"
    by (simp add: resolve_expected_dims_def half_schema_def)
  have e2: "resolve_expected_coords half_schema ?kwD = Inl ?cb"
    by (simp add: resolve_expected_coords_def half_schema_def round_coords_def)
  have vA: "validate resolved_schema foo_array = ([], Inr ())"
    by code_simp
  have vB: "validate resolved_schema low_foo_array = ([], Inl (Exception ?low))"
    by code_simp
  have ec: "expected_coords ?RL = Concrete ?ecs"
    by (simp add: resolved_schema_def)
  have cd: "coords_as_dict low_foo_array = Inr ?ecs"
    by (simp add: coords_as_dict_def low_foo_array_def)
  have h3: "?ecs = [] \<or>
      (\<exists>cd. coords_as_dict low_foo_array = Inr cd \<and>
         (coord_match_type ?RL = ''exact'' \<or>
          list_all (\<lambda>k. List.member (map fst cd) k) (map fst ?ecs)))"
    using cd by simp
  have re: "\<not> raise_errors ?RL"
    by (simp add: resolved_schema_def)
  have vs: "violations ?RL low_foo_array = [?low]"
    by code_simp
  have w1: "check_input ''foo'' counting_func dynamic_schema 0 [] ?kwA =
      (resolved_schema, 1, [], Inr 0)"
    using check_input_protocol [where kw = "?kwA" and schema = "dynamic_schema" and arg_name = "''foo''"
        and func = counting_func and w = 0 and args = "[]", OF selfA]
      r1 [of ?kwA, OF gA] r2 [of ?kwA, OF gA] vA
    by (simp add: counting_func_def)
  have w2: "check_input ''foo'' counting_func dynamic_schema 0 [] ?kwB =
      (resolved_schema, 0, [], Inl (Exception ?low))"
    using check_input_protocol [where kw = "?kwB" and schema = "dynamic_schema" and arg_name = "''foo''"
        and func = counting_func and w = 0 and args = "[]", OF selfB]
      r1 [of ?kwB, OF gB] r2 [of ?kwB, OF gB] vB
    by simp
  have "check_input ''foo'' counting_func ?L 0 [] ?kwB =
      (if raise_errors ?RL
       then (case violations ?RL low_foo_array of
               [] \<Rightarrow> (?RL, fst (counting_func 0 [] ?kwB), [], snd (counting_func 0 [] ?kwB))
             | m # _ \<Rightarrow> (?RL, 0, [], Inl (Exception m)))
       else (?RL, fst (counting_func 0 [] ?kwB), violations ?RL low_foo_array,
             snd (counting_func 0 [] ?kwB)))"
    using check_input_protocol [where kw = "?kwB" and schema = "?L" and arg_name = "''foo''"
        and func = counting_func and w = 0 and args = "[]", OF selfB]
      l1 [of ?kwB, OF gB] l2 [of ?kwB, OF gB] aB ec h3
    by blast
  then have w3: "check_input ''foo'' counting_func ?L 0 [] ?kwB = (?RL, 1, [?low], Inr 0)"
    using re vs by (simp add: counting_func_def)
  have w4: "check_input ''foo'' counting_func dynamic_schema 0 [] ?kwC =
      (resolved_schema, 0, [], Inl (KeyError ''foo''))"
    using check_input_protocol [where kw = "?kwC" and schema = "dynamic_schema" and arg_name = "''foo''"
        and func = counting_func and w = 0 and args = "[]", OF selfC]
      r1 [of ?kwC, OF gC] r2 [of ?kwC, OF gC]
    by simp
  have w5: "check_input ''foo'' counting_func dynamic_schema 0 [] ?kwD = (dynamic_schema, 0, [], Inl ?cb)"
    using check_input_protocol [where kw = "?kwD" and schema = "dynamic_schema" and arg_name = "''foo''"
        and func = counting_func and w = 0 and args = "[]"] selfD e1
    by simp
  have w6: "check_input ''foo'' counting_func half_schema 0 [] ?kwD = (half_schema, 0, [], Inl ?cb)"
    using check_input_protocol [where kw = "?kwD" and schema = "half_schema" and arg_name = "''foo''"
        and func = counting_func and w = 0 and args = "[]"] selfD h1 e2
    by simp
  from w1 w2 w3 w4 w5 w6 show ?thesis
    by (intro conjI)
qed

text \<open>
  C10, as the claim states it: every call that omits \<open>arg_name\<close> raises the lookup error
  after both resolve steps, with the callbacks resolved. A call that omits both
  \<open>arg_name\<close> and the context a callback needs ends in the callback's own error, and the
  schema still holds its callbacks.
\<close>

theorem check_input_missing_arg_callback_raises:
  "Map.empty ''foo'' = (None :: pyarg option) \<and>
   check_input ''foo'' counting_func dynamic_schema 0 [] Map.empty =
     (dynamic_schema, 0, [],
      Inl (Exception [Lit ''Could not get coordinates, gbd_round_id parameter not found.''])) \<and>
   expected_dims dynamic_schema = Callback round_dims \<and>
   expected_coords dynamic_schema = Callback round_coords"
  by (simp add: check_input_def method_call_def resolve_expected_dims_def dynamic_schema_def
      round_dims_def)

text \<open>
  C10, amended. For a call whose keyword arguments omit \<open>arg_name\<close> (and do not hold
  the name \<open>self\<close>), the call ends in an exception and the wrapped function is never
  run: the world is unchanged and the outcome is the same for every wrapped function. When
  both resolve steps return, the exception is the KeyError for \<open>arg_name\<close>, raised after
  them: the schema left behind is the resolved one, with both expectations concrete. When
  a callback raises, its error is raised instead, and the schema keeps what was resolved
  before it.
\<close>

theorem check_input_missing_arg:
  assumes "kw arg_name = None" and "kw ''self'' = None"
  shows
  "(\<exists>s e. check_input arg_name func schema w args kw = (s, w, [], Inl e)) \<and>
   (\<forall>func'. check_input arg_name func' schema w args kw =
      check_input arg_name func schema w args kw) \<and>
   (\<forall>e. resolve_expected_dims schema kw = Inl e \<longrightarrow>
      check_input arg_name func schema w args kw = (schema, w, [], Inl e)) \<and>
   (\<forall>s1 e. resolve_expected_dims schema kw = Inr s1 \<longrightarrow>
      resolve_expected_coords s1 kw = Inl e \<longrightarrow>
      check_input arg_name func schema w args kw = (s1, w, [], Inl e) \<and>
      (\<exists>ds. expected_dims s1 = Concrete ds)) \<and>
   (\<forall>s1 s2. resolve_expected_dims schema kw = Inr s1 \<longrightarrow>
      resolve_expected_coords s1 kw = Inr s2 \<longrightarrow>
      check_input arg_name func schema w args kw = (s2, w, [], Inl (KeyError arg_name)) \<and>
      (\<exists>ds cs. expected_dims s2 = Concrete ds \<and> expected_coords s2 = Concrete cs))"
proof (intro conjI allI impI)
  show "\<exists>s e. check_input arg_name func schema w args kw = (s, w, [], Inl e)"
    using assms by (simp add: check_input_def split: sum.splits)
  show "check_input arg_name func' schema w args kw =
      check_input arg_name func schema w args kw" for func'
    using assms by (simp add: check_input_def split: sum.splits)
  show "\<exists>ds. expected_dims s1 = Concrete ds"
    if "resolve_expected_dims schema kw = Inr s1" for s1
    using that by (rule resolve_expected_dims_concrete)
  show "\<exists>ds cs. expected_dims s2 = Concrete ds \<and> expected_coords s2 = Concrete cs"
    if "resolve_expected_dims schema kw = Inr s1" "resolve_expected_coords s1 kw = Inr s2"
    for s1 s2
    using resolve_expected_dims_concrete [OF that(1)] resolve_expected_coords_concrete [OF that(2)]
    by auto
qed (insert assms, simp_all add: check_input_def)

theorem check_input_missing_arg_witness:
  "check_input ''foo'' counting_func dynamic_schema 0 [] [''gbd_round_id'' \<mapsto> IntArg 6] =
     (resolved_schema, 0, [], Inl (KeyError ''foo'')) \<and>
   check_input ''foo'' counting_func dynamic_schema 0 [] [''bar'' \<mapsto> StrArg ''something''] =
     (dynamic_schema, 0, [],
      Inl (Exception [Lit ''Could not get coordinates, gbd_round_id parameter not found.''])) \<and>
   check_input ''foo'' counting_func half_schema 0 [] [''bar'' \<mapsto> StrArg ''something''] =
     (half_schema, 0, [],
      Inl (Exception [Lit ''Could not get coordinates, gbd_round_id parameter not found.'']))"
proof -
  let ?kw = "[''gbd_round_id'' \<mapsto> IntArg 6]"
  let ?kb = "[''bar'' \<mapsto> StrArg ''something'']"
  let ?s1 = "dynamic_schema\<lparr>expected_dims := Concrete [''foo'']\<rparr>"
  let ?cb = "Exception [Lit ''Could not get coordinates, gbd_round_id parameter not found.'']"
  have arg: "?kw ''foo'' = None" and self: "?kw ''self'' = None"
    and argb: "?kb ''foo'' = None" and selfb: "?kb ''self'' = None"
    by simp_all
  have r1: "resolve_expected_dims dynamic_schema ?kw = Inr ?s1"
    by (simp add: resolve_expected_dims_def dynamic_schema_def round_dims_def)
  have r2: "resolve_expected_coords ?s1 ?kw = Inr resolved_schema"
    by (simp add: resolve_expected_coords_def dynamic_schema_def round_coords_def
        resolved_schema_def)
  have e1: "resolve_expected_dims dynamic_schema ?kb = Inl ?cb"
    by (simp add: resolve_expected_dims_def dynamic_schema_def round_dims_def)
  have h1: "resolve_expected_dims half_schema ?kb = Inr half_schema"
    by (simp add: resolve_expected_dims_def half_schema_def)
  have e2: "resolve_expected_coords half_schema ?kb = Inl ?cb"
    by (simp add: resolve_expected_coords_def half_schema_def round_coords_def)
  have w1: "check_input ''foo'' counting_func dynamic_schema 0 [] ?kw =
      (resolved_schema, 0, [], Inl (KeyError ''foo''))"
    using check_input_missing_arg [where kw = "?kw" and schema = dynamic_schema and arg_name = "''foo''"
        and func = counting_func and w = 0 and args = "[]"] arg self r1 r2
    by blast
  have w2: "check_input ''foo'' counting_func dynamic_schema 0 [] ?kb = (dynamic_schema, 0, [], Inl ?cb)"
    using check_input_missing_arg [where kw = "?kb" and schema = dynamic_schema and arg_name = "''foo''"
        and func = counting_func and w = 0 and args = "[]"] argb selfb e1
    by blast
  have w3: "check_input ''foo'' counting_func half_schema 0 [] ?kb = (half_schema, 0, [], Inl ?cb)"
    using check_input_missing_arg [where kw = "?kb" and schema = half_schema and arg_name = "''foo''"
        and func = counting_func and w = 0 and args = "[]"] argb selfb h1 e2
    by blast
  from w1 w2 w3 show ?thesis
    by (intro conjI)
qed

end
